theory Spec2Isabelle
  imports Main
begin

section \<open>Python values\<close>

text \<open>
  \<open>geotiff.get\<close> is dynamically typed: every parameter may hold any object. The values
  it can tell apart are \<open>None\<close>, integers, strings and lists; of any other object
  (an enum member, a named tuple, a tuple, a dict) it observes only the truth value and
  the renderings \<open>str\<close> and \<open>repr\<close>, which \<open>PObj\<close> carries. A \<open>PObj\<close> is not a list and
  has no attribute \<open>split\<close>. A string is a list of characters, each a code point below
  256.
\<close>

datatype pyval =
    PNone
  | PInt int
  | PStr string
  | PList "pyval list"
  | PObj bool string string

datatype exn =
    KeyError string
  | AttributeError string
  | RuntimeError string
  | ValueError string
  | ExternalError string

text \<open>Truth value testing (\<open>if credentials\<close>).\<close>

fun py_truthy :: "pyval \<Rightarrow> bool" where
  "py_truthy PNone = False"
| "py_truthy (PInt i) = (i \<noteq> 0)"
| "py_truthy (PStr s) = (s \<noteq> [])"
| "py_truthy (PList xs) = (xs \<noteq> [])"
| "py_truthy (PObj b s r) = b"

subsection \<open>\<open>str\<close> and \<open>repr\<close>\<close>

definition digit_char :: "nat \<Rightarrow> char" where
  "digit_char d = ''0123456789abcdef'' ! (d mod 16)"

fun str_of_nat :: "nat \<Rightarrow> string" where
  "str_of_nat n = (if n < 10 then [digit_char n]
                   else str_of_nat (n div 10) @ [digit_char (n mod 10)])"

declare str_of_nat.simps [simp del]

definition str_of_int :: "int \<Rightarrow> string" where
  "str_of_int i = (if i < 0 then CHR ''-'' # str_of_nat (nat (- i)) else str_of_nat (nat i))"

text \<open>
  \<open>repr\<close> of a string: double quotes when the string holds a single quote and no double
  quote, single quotes otherwise; the quote and the backslash are escaped, tab, newline
  and carriage return have their letters, and the other characters that are not
  printable (the control characters, the no-break space and the soft hyphen) are written
  \<open>\xNN\<close>.
\<close>

definition repr_char :: "char \<Rightarrow> char \<Rightarrow> string" where
  "repr_char q c =
     (let n = (of_char c :: nat) in
      if c = q \<or> c = CHR 0x5C then [CHR 0x5C, c]
      else if c = CHR 0x09 then [CHR 0x5C, CHR ''t'']
      else if c = CHR 0x0A then [CHR 0x5C, CHR ''n'']
      else if c = CHR 0x0D then [CHR 0x5C, CHR ''r'']
      else if n < 32 \<or> n = 127 \<or> (128 \<le> n \<and> n \<le> 160) \<or> n = 173
        then [CHR 0x5C, CHR ''x'', digit_char (n div 16), digit_char (n mod 16)]
      else [c])"

definition repr_str :: "string \<Rightarrow> string" where
  "repr_str s =
     (let q = (if CHR 0x27 \<in> set s \<and> CHR 0x22 \<notin> set s then CHR 0x22 else CHR 0x27)
      in q # concat (map (repr_char q) s) @ [q])"

fun join_comma :: "string list \<Rightarrow> string" where
  "join_comma [] = []"
| "join_comma [x] = x"
| "join_comma (x # y # ys) = x @ '', '' @ join_comma (y # ys)"

fun py_repr :: "pyval \<Rightarrow> string" where
  "py_repr PNone = ''None''"
| "py_repr (PInt i) = str_of_int i"
| "py_repr (PStr s) = repr_str s"
| "py_repr (PList xs) = ''['' @ join_comma (map py_repr xs) @ '']''"
| "py_repr (PObj b s r) = r"

fun py_str :: "pyval \<Rightarrow> string" where
  "py_str (PStr s) = s"
| "py_str (PObj b s r) = s"
| "py_str v = py_repr v"

subsection \<open>\<open>str.split\<close> with a one-character separator\<close>

fun py_split :: "char \<Rightarrow> string \<Rightarrow> string list" where
  "py_split sep [] = [[]]"
| "py_split sep (c # cs) =
     (if c = sep then [] # py_split sep cs
      else (case py_split sep cs of
              [] \<Rightarrow> [[c]]
            | x # xs \<Rightarrow> (c # x) # xs))"

text \<open>\<open>v.split(":")\<close>: only strings have the method.\<close>

fun split_colon :: "pyval \<Rightarrow> exn + string list" where
  "split_colon (PStr s) = Inr (py_split CHR '':'' s)"
| "split_colon v = Inl (AttributeError ''split'')"

text \<open>\<open>xs[0]\<close>\<close>

fun index0 :: "string list \<Rightarrow> exn + string" where
  "index0 [] = Inl (ExternalError ''IndexError'')"
| "index0 (x # xs) = Inr x"

subsection \<open>Dictionaries\<close>

text \<open>
  A \<open>dict\<close> with string keys, in insertion order. \<open>d.pop(k)\<close> returns the value and the
  dictionary without the key, or raises \<open>KeyError\<close>.
\<close>

type_synonym pydict = "(string \<times> pyval) list"

definition dict_without :: "string set \<Rightarrow> pydict \<Rightarrow> pydict" where
  "dict_without K d = filter (\<lambda>kv. fst kv \<notin> K) d"

definition dict_pop :: "string \<Rightarrow> pydict \<Rightarrow> exn + (pyval \<times> pydict)" where
  "dict_pop k d =
     (case map_of d k of
        None \<Rightarrow> Inl (KeyError k)
      | Some v \<Rightarrow> Inr (v, dict_without {k} d))"

section \<open>The arguments of \<open>get\<close>\<close>

text \<open>
  The twelve parameters of \<open>get\<close>, each holding the value bound at the call (the
  caller's, or the parameter's default). \<open>locals()\<close> on entry lists them in the order of
  the signature.
\<close>

record get_args =
  layer_type :: pyval
  uri :: pyval
  crs :: pyval
  max_tile_size :: pyval
  num_partitions :: pyval
  chunk_size :: pyval
  partition_bytes :: pyval
  time_tag :: pyval
  time_format :: pyval
  delimiter :: pyval
  s3_client :: pyval
  s3_credentials :: pyval

definition locals_of :: "get_args \<Rightarrow> pydict" where
  "locals_of a =
     [(''layer_type'', layer_type a),
      (''uri'', uri a),
      (''crs'', crs a),
      (''max_tile_size'', max_tile_size a),
      (''num_partitions'', num_partitions a),
      (''chunk_size'', chunk_size a),
      (''partition_bytes'', partition_bytes a),
      (''time_tag'', time_tag a),
      (''time_format'', time_format a),
      (''delimiter'', delimiter a),
      (''s3_client'', s3_client a),
      (''s3_credentials'', s3_credentials a)]"

section \<open>Collaborators and the shared state\<close>

text \<open>
  What \<open>geotiff_rdd.get\<close> receives (the session handle \<open>pysc._jsc.sc()\<close> apart), together
  with the backend-credential configuration in force while it runs.
\<close>

record engine_call =
  call_key :: string
  call_uris :: "pyval list"
  call_options :: pydict
  call_partition_bytes :: string
  call_s3_config :: "string \<rightharpoonup> pyval"

type_synonym srdd = nat

text \<open>
  The functions \<open>get\<close> calls that live outside \<open>geotiff.py\<close> are parameters of the model:
  \<open>LayerType(x)._key_name(False)\<close>, \<open>is_s3_uri\<close> and the engine's \<open>GeoTiffRDD.get\<close>. Each
  may raise.
\<close>

record collaborators =
  LayerType_key_name :: "pyval \<Rightarrow> exn + string"
  is_s3_uri :: "pyval \<Rightarrow> exn + bool"
  GeoTiffRDD_get :: "engine_call \<Rightarrow> exn + srdd"

datatype scope_event = ScopeEnter pyval string | ScopeExit

text \<open>
  The state shared with the rest of the process: the credential configuration per
  backend scheme, the engine calls made so far, and the entries and exits of the
  credential scope.
\<close>

record world =
  s3_config :: "string \<rightharpoonup> pyval"
  engine_calls :: "engine_call list"
  scope_log :: "scope_event list"

record RasterLayer =
  rl_layer_type :: pyval
  rl_srdd :: srdd

text \<open>
  Modelled from the spec: \<open>set_s3_credentials\<close> of \<open>geopyspark.geotrellis.s3\<close>, the context
  manager that \<open>get\<close> enters around the engine call. With credentials absent it is a
  no-op; otherwise entering installs the credentials as the active ones of the backend
  (keeping what was configured before) and leaving restores the prior state, "unset"
  included.
\<close>

definition s3_scope_enter :: "pyval \<Rightarrow> string \<Rightarrow> world \<Rightarrow> pyval option \<times> world" where
  "s3_scope_enter credentials uri_type w =
     (s3_config w uri_type,
      if credentials = PNone then w
      else w\<lparr>s3_config := (s3_config w)(uri_type \<mapsto> credentials)\<rparr>)"

definition s3_scope_exit :: "pyval \<Rightarrow> string \<Rightarrow> pyval option \<Rightarrow> world \<Rightarrow> world" where
  "s3_scope_exit credentials uri_type prior w =
     (if credentials = PNone then w
      else w\<lparr>s3_config := (s3_config w)(uri_type := prior)\<rparr>)"

section \<open>\<open>geotiff.py\<close>\<close>

definition s3_error_message :: "pyval \<Rightarrow> string" where
  "s3_error_message u =
     ''S3 credentials were provided to geotiff.get, but an AWS S3 URI was not specified (URI: ''
     @ py_str u @ '')''"

definition validate_s3_credentials :: "collaborators \<Rightarrow> pyval \<Rightarrow> pyval \<Rightarrow> exn + unit" where
  "validate_s3_credentials env u credentials =
     (if py_truthy credentials then
        (case is_s3_uri env u of
           Inl e \<Rightarrow> Inl e
         | Inr b \<Rightarrow> if \<not> b then Inl (RuntimeError (s3_error_message u)) else Inr ())
      else Inr ())"

text \<open>
  Lines 89 to 98 of \<open>get\<close>: the options that are not \<open>None\<close>, the backend key, the
  partition bytes as a string, and the list of URIs. None of it touches the shared state.
  The lookups of the session and of the engine's class (lines 91 and 92) leave no trace in
  the model.
\<close>

record resolved =
  res_key :: string
  res_partition_bytes :: string
  res_uri :: pyval
  res_uris :: "pyval list"
  res_inputs :: pydict

definition get_inputs :: "get_args \<Rightarrow> pydict" where
  "get_inputs a = filter (\<lambda>kv. snd kv \<noteq> PNone) (locals_of a)"

definition normalize_uris :: "pyval \<Rightarrow> pyval list" where
  "normalize_uris u = (case u of PList xs \<Rightarrow> xs | _ \<Rightarrow> [u])"

definition get_resolve :: "collaborators \<Rightarrow> get_args \<Rightarrow> exn + resolved" where
  "get_resolve env a =
     (case dict_pop ''layer_type'' (get_inputs a) of
        Inl e \<Rightarrow> Inl e
      | Inr (lt, inputs1) \<Rightarrow>
     (case LayerType_key_name env lt of
        Inl e \<Rightarrow> Inl e
      | Inr key \<Rightarrow>
     (case dict_pop ''partition_bytes'' inputs1 of
        Inl e \<Rightarrow> Inl e
      | Inr (pb, inputs2) \<Rightarrow>
     (case dict_pop ''uri'' inputs2 of
        Inl e \<Rightarrow> Inl e
      | Inr (u, inputs3) \<Rightarrow>
          Inr \<lparr>res_key = key,
               res_partition_bytes = py_str pb,
               res_uri = u,
               res_uris = normalize_uris u,
               res_inputs = inputs3\<rparr>))))"

text \<open>
  Lines 100 to 107: the credentials are popped when present and then validated
  (\<open>KeyError\<close> means they were left \<open>None\<close>), and the scheme token is the first part of the
  URI split at the colons.
\<close>

record call_plan =
  plan_key :: string
  plan_partition_bytes :: string
  plan_uris :: "pyval list"
  plan_inputs :: pydict
  plan_s3_credentials :: pyval
  plan_uri_type :: string

definition pop_s3_credentials :: "collaborators \<Rightarrow> pyval \<Rightarrow> pydict \<Rightarrow> exn + (pyval \<times> pydict)" where
  "pop_s3_credentials env u inputs =
     (case dict_pop ''s3_credentials'' inputs of
        Inl e \<Rightarrow> Inr (PNone, inputs)
      | Inr (c, inputs') \<Rightarrow>
          (case validate_s3_credentials env u c of
             Inl e \<Rightarrow> Inl e
           | Inr _ \<Rightarrow> Inr (c, inputs')))"

definition get_plan :: "collaborators \<Rightarrow> get_args \<Rightarrow> exn + call_plan" where
  "get_plan env a =
     (case get_resolve env a of
        Inl e \<Rightarrow> Inl e
      | Inr r \<Rightarrow>
     (case pop_s3_credentials env (res_uri r) (res_inputs r) of
        Inl e \<Rightarrow> Inl e
      | Inr (c, inputs4) \<Rightarrow>
     (case split_colon (res_uri r) of
        Inl e \<Rightarrow> Inl e
      | Inr parts \<Rightarrow>
     (case index0 parts of
        Inl e \<Rightarrow> Inl e
      | Inr uri_type \<Rightarrow>
          Inr \<lparr>plan_key = res_key r,
               plan_partition_bytes = res_partition_bytes r,
               plan_uris = res_uris r,
               plan_inputs = inputs4,
               plan_s3_credentials = c,
               plan_uri_type = uri_type\<rparr>))))"

text \<open>
  The \<open>with\<close> block and the return. The scope is entered, the engine is called with what
  the plan holds, and the scope is left whether the engine returned or raised; an
  exception of the engine leaves \<open>get\<close> after the scope's exit.
\<close>

definition get :: "collaborators \<Rightarrow> get_args \<Rightarrow> world \<Rightarrow> (exn + RasterLayer) \<times> world" where
  "get env a w =
     (case get_plan env a of
        Inl e \<Rightarrow> (Inl e, w)
      | Inr p \<Rightarrow>
          (let w1 = w\<lparr>scope_log := scope_log w @ [ScopeEnter (plan_s3_credentials p) (plan_uri_type p)]\<rparr>;
               (prior, w2) = s3_scope_enter (plan_s3_credentials p) (plan_uri_type p) w1;
               c = \<lparr>call_key = plan_key p,
                    call_uris = plan_uris p,
                    call_options = plan_inputs p,
                    call_partition_bytes = plan_partition_bytes p,
                    call_s3_config = s3_config w2\<rparr>;
               w3 = w2\<lparr>engine_calls := engine_calls w2 @ [c]\<rparr>;
               outcome = GeoTiffRDD_get env c;
               w4 = s3_scope_exit (plan_s3_credentials p) (plan_uri_type p) prior w3;
               w5 = w4\<lparr>scope_log := scope_log w4 @ [ScopeExit]\<rparr>
           in (case outcome of
                 Inl e \<Rightarrow> (Inl e, w5)
               | Inr handle \<Rightarrow> (Inr \<lparr>rl_layer_type = layer_type a, rl_srdd = handle\<rparr>, w5))))"

section \<open>Concrete collaborators and calls\<close>

text \<open>
  Modelled from the spec: the layer-type resolver (\<open>LayerType\<close> and its \<open>_key_name\<close> live in
  \<open>geopyspark.geotrellis.constants\<close>). The tags \<open>spatial\<close> and \<open>spacetime\<close> resolve to the
  backend keys of the spatial and the space-time variant; any other tag is an
  invalid-enumeration error.
\<close>

definition spec_LayerType_key_name :: "pyval \<Rightarrow> exn + string" where
  "spec_LayerType_key_name v =
     (if v = PStr ''spatial'' then Inr ''ProjectedExtent''
      else if v = PStr ''spacetime'' then Inr ''TemporalProjectedExtent''
      else Inl (ValueError (py_repr v @ '' is not a valid LayerType'')))"

text \<open>
  Modelled from the spec: \<open>is_s3_uri\<close> of \<open>geopyspark.geotrellis.s3\<close>, which tells whether a URI
  identifies the object-store backend: a string whose scheme is \<open>s3\<close>.
\<close>

definition spec_is_s3_uri :: "pyval \<Rightarrow> exn + bool" where
  "spec_is_s3_uri v =
     (case v of
        PStr s \<Rightarrow> Inr (takeWhile (\<lambda>c. c \<noteq> CHR '':'') s = ''s3'')
      | _ \<Rightarrow> Inr False)"

text \<open>An engine that returns the handle 7, and one that raises.\<close>

definition engine_returns :: "engine_call \<Rightarrow> exn + srdd" where
  "engine_returns c = Inr 7"

definition engine_raises :: "engine_call \<Rightarrow> exn + srdd" where
  "engine_raises c = Inl (ExternalError ''Py4JJavaError'')"

definition env_returns :: collaborators where
  "env_returns =
     \<lparr>LayerType_key_name = spec_LayerType_key_name,
      is_s3_uri = spec_is_s3_uri,
      GeoTiffRDD_get = engine_returns\<rparr>"

definition env_raises :: collaborators where
  "env_raises =
     \<lparr>LayerType_key_name = spec_LayerType_key_name,
      is_s3_uri = spec_is_s3_uri,
      GeoTiffRDD_get = engine_raises\<rparr>"

text \<open>
  Modelled from the spec: the six \<open>DEFAULT_\<close> constants of
  \<open>geopyspark.geotrellis.constants\<close>, the defaults of the parameters that are not left unset.
  They are real values, none of them \<open>None\<close>; the numbers and strings below stand for them,
  and nothing proved of \<open>get\<close> depends on which they are.
  \<open>call_with_defaults lt u c\<close> is the call \<open>get(lt, u, s3_credentials=c)\<close>.
\<close>

definition call_with_defaults :: "pyval \<Rightarrow> pyval \<Rightarrow> pyval \<Rightarrow> get_args" where
  "call_with_defaults lt u c =
     \<lparr>layer_type = lt,
      uri = u,
      crs = PNone,
      max_tile_size = PInt 256,
      num_partitions = PNone,
      chunk_size = PInt 500,
      partition_bytes = PInt 1343225856,
      time_tag = PStr ''TIFFTAG_DATETIME'',
      time_format = PStr ''yyyy:MM:dd HH:mm:ss'',
      delimiter = PNone,
      s3_client = PStr ''default'',
      s3_credentials = c\<rparr>"

text \<open>A credentials bundle, and a process in which nothing is configured or logged yet.\<close>

definition some_credentials :: pyval where
  "some_credentials = PObj True ''Credentials(access_key=AK, secret_key=SK)'' ''Credentials(access_key=AK, secret_key=SK)''"

definition empty_bundle :: pyval where
  "empty_bundle = PObj False ''()'' ''()''"

definition fresh_world :: world where
  "fresh_world = \<lparr>s3_config = Map.empty, engine_calls = [], scope_log = []\<rparr>"

section \<open>Auxiliary facts\<close>

subsection \<open>Splitting\<close>

lemma py_split_nonempty: "py_split sep s \<noteq> []"
  by (induction s) (auto split: list.splits)

lemma hd_py_split: "hd (py_split sep s) = takeWhile (\<lambda>c. c \<noteq> sep) s"
  by (induction s) (auto split: list.splits simp: py_split_nonempty)

lemma index0_py_split: "index0 (py_split sep s) = Inr (takeWhile (\<lambda>c. c \<noteq> sep) s)"
  using py_split_nonempty [of sep s] hd_py_split [of sep s]
  by (cases "py_split sep s") auto

subsection \<open>Dictionaries\<close>

lemma map_of_filter_snd:
  "distinct (map fst d) \<Longrightarrow>
   map_of (filter (\<lambda>kv. P (snd kv)) d) k =
     (case map_of d k of None \<Rightarrow> None | Some v \<Rightarrow> if P v then Some v else None)"
proof (induction d)
  case Nil
  show ?case by simp
next
  case (Cons x d)
  obtain k' v' where x: "x = (k', v')" by (cases x)
  from Cons.prems have notin: "k' \<notin> fst ` set d" and dist: "distinct (map fst d)"
    by (auto simp: x)
  show ?case
  proof (cases "k = k'")
    case True
    have "map_of [kv\<leftarrow>d . P (snd kv)] k' = None"
      using notin by (auto simp: map_of_eq_None_iff)
    then show ?thesis using True by (simp add: x)
  next
    case False
    then show ?thesis using Cons.IH [OF dist] by (simp add: x)
  qed
qed

lemma dict_without_empty: "dict_without {} d = d"
  by (simp add: dict_without_def)

lemma dict_without_twice: "dict_without K (dict_without L d) = dict_without (K \<union> L) d"
  unfolding dict_without_def by (induction d) auto

lemma map_of_dict_without:
  "map_of (dict_without K d) k = (if k \<in> K then None else map_of d k)"
  unfolding dict_without_def by (induction d) auto

lemma dict_pop_without:
  "dict_pop k (dict_without K d) =
     (if k \<in> K then Inl (KeyError k)
      else (case map_of d k of
              None \<Rightarrow> Inl (KeyError k)
            | Some v \<Rightarrow> Inr (v, dict_without (insert k K) d)))"
  by (simp add: dict_pop_def map_of_dict_without dict_without_twice split: option.splits)

lemma dict_without_absent:
  "map_of d k = None \<Longrightarrow> dict_without (insert k K) d = dict_without K d"
  unfolding dict_without_def by (induction d) (auto split: if_splits)

lemma keys_dict_without: "fst ` set (dict_without K d) = fst ` set d - K"
  unfolding dict_without_def by auto

lemma distinct_locals: "distinct (map fst (locals_of a))"
  by (simp add: locals_of_def)

lemma map_of_get_inputs:
  "map_of (get_inputs a) k =
     (case map_of (locals_of a) k of None \<Rightarrow> None | Some v \<Rightarrow> if v = PNone then None else Some v)"
  unfolding get_inputs_def
  using map_of_filter_snd [OF distinct_locals, of "\<lambda>v. v \<noteq> PNone" a k]
  by (auto split: option.splits)

lemma map_of_locals:
  "map_of (locals_of a) ''layer_type'' = Some (layer_type a)"
  "map_of (locals_of a) ''uri'' = Some (uri a)"
  "map_of (locals_of a) ''partition_bytes'' = Some (partition_bytes a)"
  "map_of (locals_of a) ''s3_credentials'' = Some (s3_credentials a)"
  by (simp_all add: locals_of_def)

subsection \<open>The three stages of \<open>get\<close>, case by case\<close>

lemma get_resolve_char:
  "get_resolve env a =
     (if layer_type a = PNone then Inl (KeyError ''layer_type'')
      else (case LayerType_key_name env (layer_type a) of
        Inl e \<Rightarrow> Inl e
      | Inr key \<Rightarrow>
          if partition_bytes a = PNone then Inl (KeyError ''partition_bytes'')
          else if uri a = PNone then Inl (KeyError ''uri'')
          else Inr \<lparr>res_key = key,
                    res_partition_bytes = py_str (partition_bytes a),
                    res_uri = uri a,
                    res_uris = normalize_uris (uri a),
                    res_inputs = dict_without {''uri'', ''partition_bytes'', ''layer_type''}
                                   (get_inputs a)\<rparr>))"
proof -
  have "get_resolve env a =
     (case dict_pop ''layer_type'' (dict_without {} (get_inputs a)) of
        Inl e \<Rightarrow> Inl e
      | Inr (lt, inputs1) \<Rightarrow>
     (case LayerType_key_name env lt of
        Inl e \<Rightarrow> Inl e
      | Inr key \<Rightarrow>
     (case dict_pop ''partition_bytes'' inputs1 of
        Inl e \<Rightarrow> Inl e
      | Inr (pb, inputs2) \<Rightarrow>
     (case dict_pop ''uri'' inputs2 of
        Inl e \<Rightarrow> Inl e
      | Inr (u, inputs3) \<Rightarrow>
          Inr \<lparr>res_key = key,
               res_partition_bytes = py_str pb,
               res_uri = u,
               res_uris = normalize_uris u,
               res_inputs = inputs3\<rparr>))))"
    by (simp only: get_resolve_def dict_without_empty)
  then show ?thesis
    by (simp add: dict_pop_without map_of_get_inputs map_of_locals split: sum.splits)
qed

lemma pop_s3_credentials_char:
  "pop_s3_credentials env u (dict_without {''uri'', ''partition_bytes'', ''layer_type''} (get_inputs a)) =
     (case validate_s3_credentials env u (s3_credentials a) of
        Inl e \<Rightarrow> Inl e
      | Inr x \<Rightarrow> Inr (s3_credentials a,
                   dict_without {''s3_credentials'', ''uri'', ''partition_bytes'', ''layer_type''}
                     (get_inputs a)))"
proof (cases "s3_credentials a = PNone")
  case True
  have "dict_without {''s3_credentials'', ''uri'', ''partition_bytes'', ''layer_type''} (get_inputs a)
      = dict_without {''uri'', ''partition_bytes'', ''layer_type''} (get_inputs a)"
    by (rule dict_without_absent) (simp add: map_of_get_inputs map_of_locals True)
  moreover have "validate_s3_credentials env u PNone = Inr ()"
    by (simp add: validate_s3_credentials_def)
  ultimately show ?thesis
    by (simp add: pop_s3_credentials_def dict_pop_without map_of_get_inputs map_of_locals True)
next
  case False
  then show ?thesis
    by (simp add: pop_s3_credentials_def dict_pop_without map_of_get_inputs map_of_locals
        split: sum.splits)
qed

lemma get_plan_char:
  "get_plan env a =
     (if layer_type a = PNone then Inl (KeyError ''layer_type'')
      else (case LayerType_key_name env (layer_type a) of
        Inl e \<Rightarrow> Inl e
      | Inr key \<Rightarrow>
          if partition_bytes a = PNone then Inl (KeyError ''partition_bytes'')
          else if uri a = PNone then Inl (KeyError ''uri'')
          else (case validate_s3_credentials env (uri a) (s3_credentials a) of
            Inl e \<Rightarrow> Inl e
          | Inr x \<Rightarrow>
              (case uri a of
                 PStr s \<Rightarrow>
                   Inr \<lparr>plan_key = key,
                        plan_partition_bytes = py_str (partition_bytes a),
                        plan_uris = [PStr s],
                        plan_inputs =
                          dict_without {''s3_credentials'', ''uri'', ''partition_bytes'', ''layer_type''}
                            (get_inputs a),
                        plan_s3_credentials = s3_credentials a,
                        plan_uri_type = takeWhile (\<lambda>c. c \<noteq> CHR '':'') s\<rparr>
               | _ \<Rightarrow> Inl (AttributeError ''split'')))))"
  unfolding get_plan_def get_resolve_char
  by (auto simp: pop_s3_credentials_char index0_py_split normalize_uris_def
      split: sum.splits pyval.splits)

lemma get_not_reached: "get_plan env a = Inl e \<Longrightarrow> get env a w = (Inl e, w)"
  by (simp add: get_def)

lemma get_reached:
  assumes "get_plan env a = Inr p"
  shows "get env a w =
    ((case GeoTiffRDD_get env
             \<lparr>call_key = plan_key p, call_uris = plan_uris p, call_options = plan_inputs p,
              call_partition_bytes = plan_partition_bytes p,
              call_s3_config =
                (if plan_s3_credentials p = PNone then s3_config w
                 else (s3_config w)(plan_uri_type p \<mapsto> plan_s3_credentials p))\<rparr> of
        Inl e \<Rightarrow> Inl e
      | Inr h \<Rightarrow> Inr \<lparr>rl_layer_type = layer_type a, rl_srdd = h\<rparr>),
     w\<lparr>engine_calls := engine_calls w @
          [\<lparr>call_key = plan_key p, call_uris = plan_uris p, call_options = plan_inputs p,
            call_partition_bytes = plan_partition_bytes p,
            call_s3_config =
              (if plan_s3_credentials p = PNone then s3_config w
               else (s3_config w)(plan_uri_type p \<mapsto> plan_s3_credentials p))\<rparr>],
       scope_log := scope_log w @
          [ScopeEnter (plan_s3_credentials p) (plan_uri_type p), ScopeExit]\<rparr>)"
  using assms
  by (auto simp: get_def s3_scope_enter_def s3_scope_exit_def Let_def split: sum.splits)

subsection \<open>What reaches the engine\<close>

lemma positional_removed_from_locals:
  "dict_without {''s3_credentials'', ''uri'', ''partition_bytes'', ''layer_type''} (locals_of a) =
     [(''crs'', crs a), (''max_tile_size'', max_tile_size a),
      (''num_partitions'', num_partitions a), (''chunk_size'', chunk_size a),
      (''time_tag'', time_tag a), (''time_format'', time_format a),
      (''delimiter'', delimiter a), (''s3_client'', s3_client a)]"
  by (simp add: dict_without_def locals_of_def)

lemma forwarded_options:
  "dict_without {''s3_credentials'', ''uri'', ''partition_bytes'', ''layer_type''} (get_inputs a) =
     filter (\<lambda>kv. snd kv \<noteq> PNone)
       [(''crs'', crs a), (''max_tile_size'', max_tile_size a),
        (''num_partitions'', num_partitions a), (''chunk_size'', chunk_size a),
        (''time_tag'', time_tag a), (''time_format'', time_format a),
        (''delimiter'', delimiter a), (''s3_client'', s3_client a)]"
proof -
  have "dict_without K (filter P d) = filter P (dict_without K d)" for K P and d :: pydict
    unfolding dict_without_def by (induction d) auto
  then show ?thesis
    unfolding get_inputs_def by (simp only: positional_removed_from_locals)
qed

lemma get_call_made:
  assumes "engine_calls (snd (get env a w)) = engine_calls w @ [c]"
  obtains p where "get_plan env a = Inr p"
    and "call_key c = plan_key p" and "call_uris c = plan_uris p"
    and "call_options c = plan_inputs p"
    and "call_partition_bytes c = plan_partition_bytes p"
    and "call_s3_config c = (if plan_s3_credentials p = PNone then s3_config w
                             else (s3_config w)(plan_uri_type p \<mapsto> plan_s3_credentials p))"
proof (cases "get_plan env a")
  case (Inl e)
  with assms show ?thesis by (simp add: get_not_reached)
next
  case (Inr p)
  from assms show ?thesis
    by (intro that [of p]) (auto simp: get_reached [OF Inr] Inr)
qed

lemma get_plan_fields:
  assumes "get_plan env a = Inr p"
  obtains s key where "uri a = PStr s" and "layer_type a \<noteq> PNone"
    and "LayerType_key_name env (layer_type a) = Inr key"
    and "partition_bytes a \<noteq> PNone"
    and "validate_s3_credentials env (uri a) (s3_credentials a) = Inr ()"
    and "p = \<lparr>plan_key = key,
              plan_partition_bytes = py_str (partition_bytes a),
              plan_uris = [PStr s],
              plan_inputs =
                dict_without {''s3_credentials'', ''uri'', ''partition_bytes'', ''layer_type''}
                  (get_inputs a),
              plan_s3_credentials = s3_credentials a,
              plan_uri_type = takeWhile (\<lambda>c. c \<noteq> CHR '':'') s\<rparr>"
  using assms unfolding get_plan_char
  by (auto split: if_splits sum.splits pyval.splits)

text \<open>Up to line 98 a string and the one-element list holding it are treated alike.\<close>

lemma get_resolve_string_or_singleton:
  "map_sum id (\<lambda>r. (res_key r, res_uris r)) (get_resolve env (a\<lparr>uri := PStr u\<rparr>))
     = map_sum id (\<lambda>r. (res_key r, res_uris r)) (get_resolve env (a\<lparr>uri := PList [PStr u]\<rparr>))
   \<and> normalize_uris (PStr u) = [PStr u]
   \<and> normalize_uris (PList [PStr u]) = [PStr u]"
  unfolding get_resolve_char
  by (simp add: normalize_uris_def split: sum.splits)

text \<open>A list as \<open>uri\<close> never gets past line 107.\<close>

lemma get_list_uri_raises_at_split:
  assumes "uri a = PList xs"
  shows "snd (get env a w) = w
       \<and> (\<exists>e. fst (get env a w) = Inl e)
       \<and> split_colon (uri a) = Inl (AttributeError ''split'')
       \<and> (layer_type a \<noteq> PNone \<and> LayerType_key_name env (layer_type a) = Inr key
            \<and> partition_bytes a \<noteq> PNone
            \<and> validate_s3_credentials env (uri a) (s3_credentials a) = Inr ()
          \<longrightarrow> fst (get env a w) = Inl (AttributeError ''split''))"
proof -
  have "\<exists>e. get_plan env a = Inl e"
    unfolding get_plan_char by (simp add: assms split: sum.splits)
  then obtain e where e: "get_plan env a = Inl e" ..
  have r: "layer_type a \<noteq> PNone \<and> LayerType_key_name env (layer_type a) = Inr key
            \<and> partition_bytes a \<noteq> PNone
            \<and> validate_s3_credentials env (uri a) (s3_credentials a) = Inr ()
          \<longrightarrow> e = AttributeError ''split''"
    using e unfolding get_plan_char by (auto simp: assms)
  show ?thesis
    using r by (simp add: get_not_reached [OF e] assms)
qed

subsection \<open>The concrete calls\<close>

lemmas fixture_defs =
  call_with_defaults_def env_returns_def env_raises_def engine_returns_def engine_raises_def
  spec_LayerType_key_name_def spec_is_s3_uri_def some_credentials_def empty_bundle_def
  fresh_world_def

lemma str_of_default_partition_bytes: "str_of_int 1343225856 = ''1343225856''"
  by (simp add: str_of_int_def str_of_nat.simps digit_char_def)

lemma defaults_inputs:
  "dict_without {''s3_credentials'', ''uri'', ''partition_bytes'', ''layer_type''}
     (get_inputs (call_with_defaults lt u c)) =
   [(''max_tile_size'', PInt 256), (''chunk_size'', PInt 500),
    (''time_tag'', PStr ''TIFFTAG_DATETIME''), (''time_format'', PStr ''yyyy:MM:dd HH:mm:ss''),
    (''s3_client'', PStr ''default'')]"
  by (simp add: forwarded_options call_with_defaults_def)

lemma plan_s3_with_credentials:
  "get_plan env_raises
     (call_with_defaults (PStr ''spatial'') (PStr ''s3://bucket/a.tif'') some_credentials) =
   Inr \<lparr>plan_key = ''ProjectedExtent'',
        plan_partition_bytes = ''1343225856'',
        plan_uris = [PStr ''s3://bucket/a.tif''],
        plan_inputs =
          [(''max_tile_size'', PInt 256), (''chunk_size'', PInt 500),
           (''time_tag'', PStr ''TIFFTAG_DATETIME''),
           (''time_format'', PStr ''yyyy:MM:dd HH:mm:ss''),
           (''s3_client'', PStr ''default'')],
        plan_s3_credentials = some_credentials,
        plan_uri_type = ''s3''\<rparr>"
  unfolding get_plan_char defaults_inputs
  by (simp add: fixture_defs validate_s3_credentials_def str_of_default_partition_bytes)

lemma plan_s3_with_credentials_returns:
  "get_plan env_returns
     (call_with_defaults (PStr ''spatial'') (PStr ''s3://bucket/a.tif'') some_credentials) =
   Inr \<lparr>plan_key = ''ProjectedExtent'',
        plan_partition_bytes = ''1343225856'',
        plan_uris = [PStr ''s3://bucket/a.tif''],
        plan_inputs =
          [(''max_tile_size'', PInt 256), (''chunk_size'', PInt 500),
           (''time_tag'', PStr ''TIFFTAG_DATETIME''),
           (''time_format'', PStr ''yyyy:MM:dd HH:mm:ss''),
           (''s3_client'', PStr ''default'')],
        plan_s3_credentials = some_credentials,
        plan_uri_type = ''s3''\<rparr>"
  unfolding get_plan_char defaults_inputs
  by (simp add: fixture_defs validate_s3_credentials_def str_of_default_partition_bytes)

lemma plan_local_without_credentials:
  "get_plan env_returns
     (call_with_defaults (PStr ''spatial'') (PStr ''/local/a.tif'') c) =
   (if py_truthy c
    then Inl (RuntimeError (s3_error_message (PStr ''/local/a.tif'')))
    else Inr \<lparr>plan_key = ''ProjectedExtent'',
        plan_partition_bytes = ''1343225856'',
        plan_uris = [PStr ''/local/a.tif''],
        plan_inputs =
          [(''max_tile_size'', PInt 256), (''chunk_size'', PInt 500),
           (''time_tag'', PStr ''TIFFTAG_DATETIME''),
           (''time_format'', PStr ''yyyy:MM:dd HH:mm:ss''),
           (''s3_client'', PStr ''default'')],
        plan_s3_credentials = c,
        plan_uri_type = ''/local/a.tif''\<rparr>)"
  unfolding get_plan_char defaults_inputs
  by (simp add: fixture_defs validate_s3_credentials_def str_of_default_partition_bytes)

lemma get_local_without_credentials_calls:
  "engine_calls (snd (get env_returns
       (call_with_defaults (PStr ''spatial'') (PStr ''/local/a.tif'') PNone) fresh_world)) =
     engine_calls fresh_world @
       [\<lparr>call_key = ''ProjectedExtent'',
         call_uris = [PStr ''/local/a.tif''],
         call_options =
           [(''max_tile_size'', PInt 256), (''chunk_size'', PInt 500),
            (''time_tag'', PStr ''TIFFTAG_DATETIME''),
            (''time_format'', PStr ''yyyy:MM:dd HH:mm:ss''),
            (''s3_client'', PStr ''default'')],
         call_partition_bytes = ''1343225856'',
         call_s3_config = Map.empty\<rparr>]"
proof -
  have p: "get_plan env_returns
     (call_with_defaults (PStr ''spatial'') (PStr ''/local/a.tif'') PNone) =
     Inr \<lparr>plan_key = ''ProjectedExtent'',
        plan_partition_bytes = ''1343225856'',
        plan_uris = [PStr ''/local/a.tif''],
        plan_inputs =
          [(''max_tile_size'', PInt 256), (''chunk_size'', PInt 500),
           (''time_tag'', PStr ''TIFFTAG_DATETIME''),
           (''time_format'', PStr ''yyyy:MM:dd HH:mm:ss''),
           (''s3_client'', PStr ''default'')],
        plan_s3_credentials = PNone,
        plan_uri_type = ''/local/a.tif''\<rparr>"
    by (simp add: plan_local_without_credentials)
  show ?thesis
    unfolding get_reached [OF p] by (simp add: fresh_world_def)
qed

section \<open>The claims\<close>




text \<open>
  C2. Whenever \<open>get\<close> enters the credential scope (lines 89 to 107 succeeded with the plan
  \<open>p\<close>), the scope is entered once and left once, after the single engine call, and the
  credential configuration afterwards is the one before the call, whatever the engine did:
  \<open>get\<close> returns the wrapped handle when the engine returned and the engine's exception
  when it raised. While the engine runs, the configuration holds the override.
\<close>

theorem get_credential_scope_restores:
  assumes "get_plan env a = Inr p"
  shows "s3_config (snd (get env a w)) = s3_config w
       \<and> scope_log (snd (get env a w)) =
           scope_log w @ [ScopeEnter (plan_s3_credentials p) (plan_uri_type p), ScopeExit]
       \<and> (\<exists>c. engine_calls (snd (get env a w)) = engine_calls w @ [c]
              \<and> call_s3_config c =
                  (if plan_s3_credentials p = PNone then s3_config w
                   else (s3_config w)(plan_uri_type p \<mapsto> plan_s3_credentials p))
              \<and> fst (get env a w) =
                  (case GeoTiffRDD_get env c of
                     Inl e \<Rightarrow> Inl e
                   | Inr h \<Rightarrow> Inr \<lparr>rl_layer_type = layer_type a, rl_srdd = h\<rparr>))"
  by (simp add: get_reached [OF assms])

text \<open>
  The theorem at \<open>get("spatial", "s3://bucket/a.tif", s3_credentials=Credentials(...))\<close>,
  with an engine that raises and with one that returns.
\<close>

theorem get_credential_scope_restores_witness:
  "s3_config (snd (get env_raises
       (call_with_defaults (PStr ''spatial'') (PStr ''s3://bucket/a.tif'') some_credentials)
       fresh_world)) = s3_config fresh_world
   \<and> scope_log (snd (get env_raises
       (call_with_defaults (PStr ''spatial'') (PStr ''s3://bucket/a.tif'') some_credentials)
       fresh_world)) = [ScopeEnter some_credentials ''s3'', ScopeExit]
   \<and> fst (get env_raises
       (call_with_defaults (PStr ''spatial'') (PStr ''s3://bucket/a.tif'') some_credentials)
       fresh_world) = Inl (ExternalError ''Py4JJavaError'')
   \<and> s3_config (snd (get env_returns
       (call_with_defaults (PStr ''spatial'') (PStr ''s3://bucket/a.tif'') some_credentials)
       fresh_world)) = s3_config fresh_world
   \<and> scope_log (snd (get env_returns
       (call_with_defaults (PStr ''spatial'') (PStr ''s3://bucket/a.tif'') some_credentials)
       fresh_world)) = [ScopeEnter some_credentials ''s3'', ScopeExit]
   \<and> fst (get env_returns
       (call_with_defaults (PStr ''spatial'') (PStr ''s3://bucket/a.tif'') some_credentials)
       fresh_world) = Inr \<lparr>rl_layer_type = PStr ''spatial'', rl_srdd = 7\<rparr>"
  using get_credential_scope_restores [OF plan_s3_with_credentials, of fresh_world]
    get_credential_scope_restores [OF plan_s3_with_credentials_returns, of fresh_world]
  by (auto simp: fresh_world_def env_raises_def engine_raises_def env_returns_def
      engine_returns_def call_with_defaults_def)

text \<open>
  C3. When \<open>s3_credentials\<close> is \<open>None\<close>, the credential configuration after the call is the
  one before it, and the engine, if it is called, runs under that same configuration.
\<close>

theorem get_without_credentials_keeps_config:
  assumes "s3_credentials a = PNone"
  shows "s3_config (snd (get env a w)) = s3_config w
       \<and> (engine_calls (snd (get env a w)) = engine_calls w
          \<or> (\<exists>c. engine_calls (snd (get env a w)) = engine_calls w @ [c]
                 \<and> call_s3_config c = s3_config w))"
proof (cases "get_plan env a")
  case (Inl e)
  then show ?thesis by (simp add: get_not_reached)
next
  case (Inr p)
  then have "plan_s3_credentials p = PNone"
    using assms by (auto elim!: get_plan_fields)
  then show ?thesis by (simp add: get_reached [OF Inr])
qed

text \<open>
  The theorem at \<open>get("spatial", "/local/a.tif")\<close>.
\<close>

theorem get_without_credentials_keeps_config_witness:
  "s3_credentials (call_with_defaults (PStr ''spatial'') (PStr ''/local/a.tif'') PNone) = PNone
   \<and> s3_config (snd (get env_returns
        (call_with_defaults (PStr ''spatial'') (PStr ''/local/a.tif'') PNone)
        fresh_world)) = s3_config fresh_world
   \<and> map call_s3_config (engine_calls (snd (get env_returns
        (call_with_defaults (PStr ''spatial'') (PStr ''/local/a.tif'') PNone)
        fresh_world))) = [s3_config fresh_world]"
proof -
  have none: "s3_credentials (call_with_defaults (PStr ''spatial'') (PStr ''/local/a.tif'') PNone) = PNone"
    by (simp add: call_with_defaults_def)
  have seen: "map call_s3_config (engine_calls (snd (get env_returns
        (call_with_defaults (PStr ''spatial'') (PStr ''/local/a.tif'') PNone)
        fresh_world))) = [s3_config fresh_world]"
    unfolding get_local_without_credentials_calls by (simp add: fresh_world_def)
  from get_without_credentials_keeps_config [OF none, of env_returns fresh_world] none seen
  show ?thesis by simp
qed

text \<open>
  C4, amended. The option mapping forwarded to the engine holds, in the order of the
  signature, exactly those of the eight parameters \<open>crs\<close>, \<open>max_tile_size\<close>,
  \<open>num_partitions\<close>, \<open>chunk_size\<close>, \<open>time_tag\<close>, \<open>time_format\<close>, \<open>delimiter\<close> and \<open>s3_client\<close>
  whose value is not \<open>None\<close>, each with its value (0 and the empty string included).
\<close>

theorem get_forwards_options_not_None:
  assumes "engine_calls (snd (get env a w)) = engine_calls w @ [c]"
  shows "call_options c =
     filter (\<lambda>kv. snd kv \<noteq> PNone)
       [(''crs'', crs a), (''max_tile_size'', max_tile_size a),
        (''num_partitions'', num_partitions a), (''chunk_size'', chunk_size a),
        (''time_tag'', time_tag a), (''time_format'', time_format a),
        (''delimiter'', delimiter a), (''s3_client'', s3_client a)]"
proof -
  from assms obtain p where p: "get_plan env a = Inr p" and o: "call_options c = plan_inputs p"
    by (rule get_call_made)
  from p have "plan_inputs p =
      dict_without {''s3_credentials'', ''uri'', ''partition_bytes'', ''layer_type''} (get_inputs a)"
    by (rule get_plan_fields) simp
  with o show ?thesis by (simp only: forwarded_options)
qed

text \<open>
  The theorem at \<open>get("spatial", "/local/a.tif")\<close>.
\<close>

theorem get_forwards_options_not_None_witness:
  "call_options
     \<lparr>call_key = ''ProjectedExtent'',
      call_uris = [PStr ''/local/a.tif''],
      call_options =
        [(''max_tile_size'', PInt 256), (''chunk_size'', PInt 500),
         (''time_tag'', PStr ''TIFFTAG_DATETIME''),
         (''time_format'', PStr ''yyyy:MM:dd HH:mm:ss''),
         (''s3_client'', PStr ''default'')],
      call_partition_bytes = ''1343225856'',
      call_s3_config = Map.empty\<rparr> =
   filter (\<lambda>kv. snd kv \<noteq> PNone)
     [(''crs'', PNone), (''max_tile_size'', PInt 256), (''num_partitions'', PNone),
      (''chunk_size'', PInt 500), (''time_tag'', PStr ''TIFFTAG_DATETIME''),
      (''time_format'', PStr ''yyyy:MM:dd HH:mm:ss''), (''delimiter'', PNone),
      (''s3_client'', PStr ''default'')]"
  using get_forwards_options_not_None [OF get_local_without_credentials_calls]
  by (simp add: call_with_defaults_def)

text \<open>
  C4 as stated fails: \<open>partition_bytes=0\<close> is supplied and is not \<open>None\<close>, yet the forwarded
  mapping has no key \<open>partition_bytes\<close> (nor \<open>layer_type\<close>, nor \<open>uri\<close>).
\<close>

theorem get_explicit_partition_bytes_not_forwarded:
  "partition_bytes
     ((call_with_defaults (PStr ''spatial'') (PStr ''/local/a.tif'') PNone)\<lparr>partition_bytes := PInt 0\<rparr>)
     = PInt 0
   \<and> map call_options (engine_calls (snd (get env_returns
        ((call_with_defaults (PStr ''spatial'') (PStr ''/local/a.tif'') PNone)\<lparr>partition_bytes := PInt 0\<rparr>)
        fresh_world)))
     = [[(''max_tile_size'', PInt 256), (''chunk_size'', PInt 500),
         (''time_tag'', PStr ''TIFFTAG_DATETIME''),
         (''time_format'', PStr ''yyyy:MM:dd HH:mm:ss''),
         (''s3_client'', PStr ''default'')]]
   \<and> map call_partition_bytes (engine_calls (snd (get env_returns
        ((call_with_defaults (PStr ''spatial'') (PStr ''/local/a.tif'') PNone)\<lparr>partition_bytes := PInt 0\<rparr>)
        fresh_world)))
     = [''0'']"
proof -
  have "\<exists>p. get_plan env_returns
        ((call_with_defaults (PStr ''spatial'') (PStr ''/local/a.tif'') PNone)\<lparr>partition_bytes := PInt 0\<rparr>)
        = Inr p
      \<and> plan_inputs p = [(''max_tile_size'', PInt 256), (''chunk_size'', PInt 500),
         (''time_tag'', PStr ''TIFFTAG_DATETIME''),
         (''time_format'', PStr ''yyyy:MM:dd HH:mm:ss''),
         (''s3_client'', PStr ''default'')]
      \<and> plan_partition_bytes p = ''0''"
    unfolding get_plan_char forwarded_options
    by (simp add: fixture_defs validate_s3_credentials_def str_of_int_def str_of_nat.simps
        digit_char_def)
  then obtain p where p: "get_plan env_returns
        ((call_with_defaults (PStr ''spatial'') (PStr ''/local/a.tif'') PNone)\<lparr>partition_bytes := PInt 0\<rparr>)
        = Inr p"
    and i: "plan_inputs p = [(''max_tile_size'', PInt 256), (''chunk_size'', PInt 500),
         (''time_tag'', PStr ''TIFFTAG_DATETIME''),
         (''time_format'', PStr ''yyyy:MM:dd HH:mm:ss''),
         (''s3_client'', PStr ''default'')]"
    and b: "plan_partition_bytes p = ''0''"
    by blast
  show ?thesis
    unfolding get_reached [OF p] by (simp add: i b fresh_world_def call_with_defaults_def)
qed

text \<open>
  C5. For the list \<open>["s3://bucket/a.tif"]\<close> the stringified list split at the first colon
  would give the token \<open>['s3\<close>. Line 107 calls \<open>split\<close> on the list itself: \<open>get\<close> raises
  \<open>AttributeError\<close>, no token is derived, the scope is not entered and the engine is not
  called.
\<close>

theorem get_singleton_list_uri_derives_no_token:
  "uri (call_with_defaults (PStr ''spatial'') (PList [PStr ''s3://bucket/a.tif'']) PNone)
     = PList [PStr ''s3://bucket/a.tif'']
   \<and> index0 (py_split CHR '':'' (py_str (PList [PStr ''s3://bucket/a.tif''])))
     = Inr [CHR ''['', CHR 0x27, CHR ''s'', CHR ''3'']
   \<and> fst (get env_returns
        (call_with_defaults (PStr ''spatial'') (PList [PStr ''s3://bucket/a.tif'']) PNone)
        fresh_world) = Inl (AttributeError ''split'')
   \<and> scope_log (snd (get env_returns
        (call_with_defaults (PStr ''spatial'') (PList [PStr ''s3://bucket/a.tif'']) PNone)
        fresh_world)) = []
   \<and> engine_calls (snd (get env_returns
        (call_with_defaults (PStr ''spatial'') (PList [PStr ''s3://bucket/a.tif'']) PNone)
        fresh_world)) = []"
proof -
  have p: "get_plan env_returns
        (call_with_defaults (PStr ''spatial'') (PList [PStr ''s3://bucket/a.tif'']) PNone)
        = Inl (AttributeError ''split'')"
    unfolding get_plan_char by (simp add: fixture_defs validate_s3_credentials_def)
  show ?thesis
    unfolding get_not_reached [OF p]
    by (simp add: fresh_world_def call_with_defaults_def repr_str_def repr_char_def Let_def
        index0_py_split)
qed

text \<open>
  C6. The call \<open>get("spacetime", ["a.tif", "b.tif"])\<close> does not succeed: the key resolves to
  the space-time variant and the two URIs are kept in order, but line 107 calls \<open>split\<close> on
  the list, \<open>get\<close> raises \<open>AttributeError\<close> and the engine is never invoked.
\<close>

theorem get_spacetime_two_uris_raises:
  "fst (get env_returns
        (call_with_defaults (PStr ''spacetime'') (PList [PStr ''a.tif'', PStr ''b.tif'']) PNone)
        fresh_world) = Inl (AttributeError ''split'')
   \<and> engine_calls (snd (get env_returns
        (call_with_defaults (PStr ''spacetime'') (PList [PStr ''a.tif'', PStr ''b.tif'']) PNone)
        fresh_world)) = []
   \<and> LayerType_key_name env_returns (PStr ''spacetime'') = Inr ''TemporalProjectedExtent''
   \<and> normalize_uris (PList [PStr ''a.tif'', PStr ''b.tif'']) = [PStr ''a.tif'', PStr ''b.tif'']"
proof -
  have p: "get_plan env_returns
        (call_with_defaults (PStr ''spacetime'') (PList [PStr ''a.tif'', PStr ''b.tif'']) PNone)
        = Inl (AttributeError ''split'')"
    unfolding get_plan_char by (simp add: fixture_defs validate_s3_credentials_def)
  show ?thesis
    unfolding get_not_reached [OF p]
    by (simp add: fixture_defs normalize_uris_def)
qed

text \<open>
  C7. The calls \<open>get("spatial", "a.tif")\<close> and \<open>get("spatial", ["a.tif"])\<close> agree up to line
  98 but not beyond: the first reaches the engine with the key of the spatial variant and
  the list \<open>["a.tif"]\<close>, the second raises \<open>AttributeError\<close> at line 107 and hands the engine
  neither a key nor a list.
\<close>

theorem get_string_and_singleton_list_diverge:
  "map call_key (engine_calls (snd (get env_returns
       (call_with_defaults (PStr ''spatial'') (PStr ''a.tif'') PNone) fresh_world)))
     = [''ProjectedExtent'']
   \<and> map call_uris (engine_calls (snd (get env_returns
       (call_with_defaults (PStr ''spatial'') (PStr ''a.tif'') PNone) fresh_world)))
     = [[PStr ''a.tif'']]
   \<and> fst (get env_returns
       (call_with_defaults (PStr ''spatial'') (PList [PStr ''a.tif'']) PNone) fresh_world)
     = Inl (AttributeError ''split'')
   \<and> engine_calls (snd (get env_returns
       (call_with_defaults (PStr ''spatial'') (PList [PStr ''a.tif'']) PNone) fresh_world))
     = []"
proof -
  have "\<exists>p. get_plan env_returns
        (call_with_defaults (PStr ''spatial'') (PStr ''a.tif'') PNone) = Inr p
      \<and> plan_key p = ''ProjectedExtent'' \<and> plan_uris p = [PStr ''a.tif'']"
    unfolding get_plan_char by (simp add: fixture_defs validate_s3_credentials_def)
  then obtain p where p: "get_plan env_returns
        (call_with_defaults (PStr ''spatial'') (PStr ''a.tif'') PNone) = Inr p"
    and k: "plan_key p = ''ProjectedExtent''" and u: "plan_uris p = [PStr ''a.tif'']"
    by blast
  have q: "get_plan env_returns
        (call_with_defaults (PStr ''spatial'') (PList [PStr ''a.tif'']) PNone)
        = Inl (AttributeError ''split'')"
    unfolding get_plan_char by (simp add: fixture_defs validate_s3_credentials_def)
  show ?thesis
    unfolding get_reached [OF p] get_not_reached [OF q]
    by (simp add: k u fresh_world_def)
qed

text \<open>
  C8. When \<open>uri\<close> is the string \<open>s\<close>, the layer type resolves, \<open>partition_bytes\<close> is not \<open>None\<close>
  and the credentials are falsy or the URI is an S3 URI, \<open>get\<close> calls the engine once, with
  the resolved key and the one-element list \<open>[s]\<close>, inside a scope entered with the scheme
  token that is the prefix of \<open>s\<close> before its first colon (all of \<open>s\<close> when it has none).
\<close>

theorem get_string_uri_token_and_wrapping:
  assumes "uri a = PStr s"
    and "layer_type a \<noteq> PNone"
    and "LayerType_key_name env (layer_type a) = Inr key"
    and "partition_bytes a \<noteq> PNone"
    and "\<not> py_truthy (s3_credentials a) \<or> is_s3_uri env (PStr s) = Inr True"
  shows "\<exists>c. engine_calls (snd (get env a w)) = engine_calls w @ [c]
           \<and> call_key c = key
           \<and> call_uris c = [PStr s]
           \<and> scope_log (snd (get env a w)) =
               scope_log w @
                 [ScopeEnter (s3_credentials a) (takeWhile (\<lambda>x. x \<noteq> CHR '':'') s), ScopeExit]"
proof -
  have v: "validate_s3_credentials env (PStr s) (s3_credentials a) = Inr ()"
    using assms(5) by (auto simp: validate_s3_credentials_def)
  have "\<exists>p. get_plan env a = Inr p \<and> plan_key p = key \<and> plan_uris p = [PStr s]
           \<and> plan_s3_credentials p = s3_credentials a
           \<and> plan_uri_type p = takeWhile (\<lambda>x. x \<noteq> CHR '':'') s"
    unfolding get_plan_char by (simp add: assms(1-4) v)
  then obtain p where p: "get_plan env a = Inr p"
    and f: "plan_key p = key" "plan_uris p = [PStr s]"
      "plan_s3_credentials p = s3_credentials a"
      "plan_uri_type p = takeWhile (\<lambda>x. x \<noteq> CHR '':'') s"
    by blast
  show ?thesis
    by (simp add: get_reached [OF p] f)
qed

text \<open>
  The theorem at \<open>get("spatial", "s3://bucket/a.tif", s3_credentials=Credentials(...))\<close>: the
  token is \<open>s3\<close>.
\<close>

theorem get_string_uri_token_and_wrapping_witness:
  "uri (call_with_defaults (PStr ''spatial'') (PStr ''s3://bucket/a.tif'') some_credentials)
     = PStr ''s3://bucket/a.tif''
   \<and> LayerType_key_name env_returns (PStr ''spatial'') = Inr ''ProjectedExtent''
   \<and> is_s3_uri env_returns (PStr ''s3://bucket/a.tif'') = Inr True
   \<and> map call_key (engine_calls (snd (get env_returns
         (call_with_defaults (PStr ''spatial'') (PStr ''s3://bucket/a.tif'') some_credentials)
         fresh_world))) = [''ProjectedExtent'']
   \<and> map call_uris (engine_calls (snd (get env_returns
         (call_with_defaults (PStr ''spatial'') (PStr ''s3://bucket/a.tif'') some_credentials)
         fresh_world))) = [[PStr ''s3://bucket/a.tif'']]
   \<and> scope_log (snd (get env_returns
         (call_with_defaults (PStr ''spatial'') (PStr ''s3://bucket/a.tif'') some_credentials)
         fresh_world)) = [ScopeEnter some_credentials ''s3'', ScopeExit]"
proof -
  have h: "uri (call_with_defaults (PStr ''spatial'') (PStr ''s3://bucket/a.tif'') some_credentials)
        = PStr ''s3://bucket/a.tif''"
      "layer_type (call_with_defaults (PStr ''spatial'') (PStr ''s3://bucket/a.tif'') some_credentials)
        \<noteq> PNone"
      "LayerType_key_name env_returns
         (layer_type (call_with_defaults (PStr ''spatial'') (PStr ''s3://bucket/a.tif'') some_credentials))
        = Inr ''ProjectedExtent''"
      "partition_bytes (call_with_defaults (PStr ''spatial'') (PStr ''s3://bucket/a.tif'') some_credentials)
        \<noteq> PNone"
      "\<not> py_truthy (s3_credentials
           (call_with_defaults (PStr ''spatial'') (PStr ''s3://bucket/a.tif'') some_credentials))
       \<or> is_s3_uri env_returns (PStr ''s3://bucket/a.tif'') = Inr True"
    by (simp_all add: fixture_defs)
  have t: "takeWhile (\<lambda>x. x \<noteq> CHR '':'') ''s3://bucket/a.tif'' = ''s3''"
    by simp
  from get_string_uri_token_and_wrapping [OF h, of fresh_world]
  obtain c where c: "engine_calls (snd (get env_returns
         (call_with_defaults (PStr ''spatial'') (PStr ''s3://bucket/a.tif'') some_credentials)
         fresh_world)) = engine_calls fresh_world @ [c]"
    and k: "call_key c = ''ProjectedExtent''"
    and u: "call_uris c = [PStr ''s3://bucket/a.tif'']"
    and l: "scope_log (snd (get env_returns
         (call_with_defaults (PStr ''spatial'') (PStr ''s3://bucket/a.tif'') some_credentials)
         fresh_world)) =
        scope_log fresh_world @
          [ScopeEnter
             (s3_credentials
               (call_with_defaults (PStr ''spatial'') (PStr ''s3://bucket/a.tif'') some_credentials))
             (takeWhile (\<lambda>x. x \<noteq> CHR '':'') ''s3://bucket/a.tif''), ScopeExit]"
    by blast
  have e: "engine_calls fresh_world = []" "scope_log fresh_world = []"
    by (simp_all add: fresh_world_def)
  have s: "s3_credentials
       (call_with_defaults (PStr ''spatial'') (PStr ''s3://bucket/a.tif'') some_credentials)
       = some_credentials"
    by (simp add: call_with_defaults_def)
  show ?thesis
    unfolding c l t s e
    using h(1) by (simp add: k u fixture_defs)
qed

text \<open>
  C9. In every engine call that \<open>get\<close> makes, the option mapping has none of the keys
  \<open>layer_type\<close>, \<open>uri\<close>, \<open>s3_credentials\<close> and \<open>partition_bytes\<close>, and the partition bytes are
  passed apart as \<open>str(partition_bytes)\<close>, the decimal numeral of an integer.
\<close>

theorem get_positional_arguments_not_forwarded:
  assumes "engine_calls (snd (get env a w)) = engine_calls w @ [c]"
  shows "''layer_type'' \<notin> fst ` set (call_options c)
       \<and> ''uri'' \<notin> fst ` set (call_options c)
       \<and> ''s3_credentials'' \<notin> fst ` set (call_options c)
       \<and> ''partition_bytes'' \<notin> fst ` set (call_options c)
       \<and> call_partition_bytes c = py_str (partition_bytes a)
       \<and> (\<forall>n. partition_bytes a = PInt n \<longrightarrow> call_partition_bytes c = str_of_int n)"
proof -
  from assms obtain p where p: "get_plan env a = Inr p"
    and o: "call_options c = plan_inputs p"
    and b: "call_partition_bytes c = plan_partition_bytes p"
    by (rule get_call_made)
  from p have i: "plan_inputs p =
      dict_without {''s3_credentials'', ''uri'', ''partition_bytes'', ''layer_type''} (get_inputs a)"
    and s: "plan_partition_bytes p = py_str (partition_bytes a)"
    by (rule get_plan_fields, simp)+
  have keys: "fst ` set (call_options c) =
      fst ` set (get_inputs a) - {''s3_credentials'', ''uri'', ''partition_bytes'', ''layer_type''}"
    by (simp only: o i keys_dict_without)
  have "call_partition_bytes c = py_str (partition_bytes a)"
    by (simp only: b s)
  then show ?thesis
    unfolding keys by auto
qed

text \<open>
  The theorem at \<open>get("spatial", "/local/a.tif")\<close>.
\<close>

theorem get_positional_arguments_not_forwarded_witness:
  "engine_calls (snd (get env_returns
       (call_with_defaults (PStr ''spatial'') (PStr ''/local/a.tif'') PNone) fresh_world)) =
     engine_calls fresh_world @
       [\<lparr>call_key = ''ProjectedExtent'',
         call_uris = [PStr ''/local/a.tif''],
         call_options =
           [(''max_tile_size'', PInt 256), (''chunk_size'', PInt 500),
            (''time_tag'', PStr ''TIFFTAG_DATETIME''),
            (''time_format'', PStr ''yyyy:MM:dd HH:mm:ss''),
            (''s3_client'', PStr ''default'')],
         call_partition_bytes = ''1343225856'',
         call_s3_config = Map.empty\<rparr>]
   \<and> ''layer_type'' \<notin> fst ` set
        [(''max_tile_size'', PInt 256), (''chunk_size'', PInt 500),
         (''time_tag'', PStr ''TIFFTAG_DATETIME''),
         (''time_format'', PStr ''yyyy:MM:dd HH:mm:ss''),
         (''s3_client'', PStr ''default'')]
   \<and> ''partition_bytes'' \<notin> fst ` set
        [(''max_tile_size'', PInt 256), (''chunk_size'', PInt 500),
         (''time_tag'', PStr ''TIFFTAG_DATETIME''),
         (''time_format'', PStr ''yyyy:MM:dd HH:mm:ss''),
         (''s3_client'', PStr ''default'')]
   \<and> ''1343225856'' = py_str (PInt 1343225856)
   \<and> ''1343225856'' = str_of_int 1343225856"
proof (intro conjI)
  show "engine_calls (snd (get env_returns
       (call_with_defaults (PStr ''spatial'') (PStr ''/local/a.tif'') PNone) fresh_world)) =
     engine_calls fresh_world @
       [\<lparr>call_key = ''ProjectedExtent'',
         call_uris = [PStr ''/local/a.tif''],
         call_options =
           [(''max_tile_size'', PInt 256), (''chunk_size'', PInt 500),
            (''time_tag'', PStr ''TIFFTAG_DATETIME''),
            (''time_format'', PStr ''yyyy:MM:dd HH:mm:ss''),
            (''s3_client'', PStr ''default'')],
         call_partition_bytes = ''1343225856'',
         call_s3_config = Map.empty\<rparr>]"
    by (rule get_local_without_credentials_calls)
qed (use get_positional_arguments_not_forwarded [OF get_local_without_credentials_calls]
      in \<open>simp_all add: call_with_defaults_def\<close>)

text \<open>
  C10. When \<open>s3_credentials\<close> is not \<open>None\<close> but falsy, the validation raises nothing,
  whatever \<open>is_s3_uri\<close> would answer; and when the other steps succeed the engine is called
  inside a scope entered with that same falsy object.
\<close>

theorem get_falsy_credentials_skip_validation:
  assumes "s3_credentials a \<noteq> PNone"
    and "\<not> py_truthy (s3_credentials a)"
  shows "validate_s3_credentials env (uri a) (s3_credentials a) = Inr ()
       \<and> (uri a = PStr s \<and> layer_type a \<noteq> PNone
            \<and> LayerType_key_name env (layer_type a) = Inr key \<and> partition_bytes a \<noteq> PNone
          \<longrightarrow> (\<exists>c. engine_calls (snd (get env a w)) = engine_calls w @ [c])
              \<and> scope_log (snd (get env a w)) =
                  scope_log w @
                    [ScopeEnter (s3_credentials a) (takeWhile (\<lambda>x. x \<noteq> CHR '':'') s), ScopeExit])"
proof -
  have v: "validate_s3_credentials env (uri a) (s3_credentials a) = Inr ()"
    using assms(2) by (simp add: validate_s3_credentials_def)
  {
    assume h: "uri a = PStr s" "layer_type a \<noteq> PNone"
      "LayerType_key_name env (layer_type a) = Inr key" "partition_bytes a \<noteq> PNone"
    have "\<exists>p. get_plan env a = Inr p \<and> plan_s3_credentials p = s3_credentials a
             \<and> plan_uri_type p = takeWhile (\<lambda>x. x \<noteq> CHR '':'') s"
      using v unfolding get_plan_char by (simp add: h)
    then obtain p where p: "get_plan env a = Inr p"
      "plan_s3_credentials p = s3_credentials a"
      "plan_uri_type p = takeWhile (\<lambda>x. x \<noteq> CHR '':'') s"
      by blast
    have "(\<exists>c. engine_calls (snd (get env a w)) = engine_calls w @ [c])
              \<and> scope_log (snd (get env a w)) =
                  scope_log w @
                    [ScopeEnter (s3_credentials a) (takeWhile (\<lambda>x. x \<noteq> CHR '':'') s), ScopeExit]"
      by (simp add: get_reached [OF p(1)] p(2,3))
  }
  with v show ?thesis by blast
qed

text \<open>
  The theorem at \<open>get("spatial", "/local/a.tif", s3_credentials=())\<close>.
\<close>

theorem get_falsy_credentials_skip_validation_witness:
  "empty_bundle \<noteq> PNone
   \<and> \<not> py_truthy empty_bundle
   \<and> is_s3_uri env_returns (PStr ''/local/a.tif'') = Inr False
   \<and> validate_s3_credentials env_returns (PStr ''/local/a.tif'') empty_bundle = Inr ()
   \<and> scope_log (snd (get env_returns
        (call_with_defaults (PStr ''spatial'') (PStr ''/local/a.tif'') empty_bundle) fresh_world))
      = [ScopeEnter empty_bundle ''/local/a.tif'', ScopeExit]"
  using get_falsy_credentials_skip_validation
    [where a = "call_with_defaults (PStr ''spatial'') (PStr ''/local/a.tif'') empty_bundle"
       and env = env_returns and s = "''/local/a.tif''" and key = "''ProjectedExtent''"
       and w = fresh_world]
  by (simp add: fixture_defs)

end
